theory Spec2Isabelle
  imports Complex_Main "HOL-Library.AList"
begin

section \<open>Python values carried by raw cost records\<close>

text \<open>
  A raw cost record is a \<^verbatim>\<open>Dict[str, Any]\<close>. The values it can hold are modelled by
  \<open>pyval\<close>; a dictionary is an association list whose first binding of a key is the
  one that counts. A naive \<^verbatim>\<open>datetime\<close> is its number of microseconds since the epoch.
\<close>

type_synonym timestamp = int

datatype pyval =
    PyNone
  | PyBool bool
  | PyNum real
  | PyStr string
  | PyDatetime timestamp
  | PyList "pyval list"
  | PyDict "(string \<times> pyval) list"

type_synonym pydict = "(string \<times> pyval) list"

text \<open>Python's truth value of an object, as tested by \<^verbatim>\<open>if item.get('start_date')\<close>.\<close>

fun truthy :: "pyval \<Rightarrow> bool" where
  "truthy PyNone = False"
| "truthy (PyBool b) = b"
| "truthy (PyNum x) = (x \<noteq> 0)"
| "truthy (PyStr s) = (s \<noteq> [])"
| "truthy (PyDatetime t) = True"
| "truthy (PyList xs) = (xs \<noteq> [])"
| "truthy (PyDict kvs) = (kvs \<noteq> [])"

text \<open>
  The exceptions the record-building code can raise. \<open>ValidationError missing invalid\<close>
  is the schema constructor's error: the required fields that were not passed and the
  passed fields whose value the declared type rejects.
\<close>

datatype py_error =
    KeyError string
  | AttributeError
  | TypeError
  | ValueError
  | ValidationError "string list" "string list"

text \<open>\<^verbatim>\<open>d.get(k, default)\<close> on a dictionary.\<close>

definition dict_get :: "pydict \<Rightarrow> string \<Rightarrow> pyval \<Rightarrow> pyval" where
  "dict_get d k dflt = (case map_of d k of None \<Rightarrow> dflt | Some v \<Rightarrow> v)"

text \<open>\<^verbatim>\<open>v.get(k, default)\<close> on an arbitrary value: only a dictionary has the method.\<close>

definition py_get :: "pyval \<Rightarrow> string \<Rightarrow> pyval \<Rightarrow> py_error + pyval" where
  "py_get v k dflt = (case v of PyDict d \<Rightarrow> Inr (dict_get d k dflt) | _ \<Rightarrow> Inl AttributeError)"

text \<open>\<^verbatim>\<open>d[k]\<close> on a dictionary.\<close>

definition subscript :: "pydict \<Rightarrow> string \<Rightarrow> py_error + pyval" where
  "subscript d k = (case map_of d k of None \<Rightarrow> Inl (KeyError k) | Some v \<Rightarrow> Inr v)"

text \<open>Sequencing of steps that may raise: the first exception ends the evaluation.\<close>

definition and_then :: "py_error + 'a \<Rightarrow> ('a \<Rightarrow> py_error + 'b) \<Rightarrow> py_error + 'b" where
  "and_then r f = (case r of Inl e \<Rightarrow> Inl e | Inr v \<Rightarrow> f v)"

text \<open>\<^verbatim>\<open>str.lower()\<close> on ASCII strings: an upper-case letter gets bit 5 set.\<close>

definition lower_char :: "char \<Rightarrow> char" where
  "lower_char c = (let n = (of_char c :: nat) in
     if 65 \<le> n \<and> n \<le> 90
     then (case c of Char b0 b1 b2 b3 b4 b5 b6 b7 \<Rightarrow> Char b0 b1 b2 b3 b4 True b6 b7)
     else c)"

definition lower :: "string \<Rightarrow> string" where
  "lower s = map lower_char s"


section \<open>The environment of one sync cycle\<close>

text \<open>
  Everything the orchestrator reads from outside is an oracle of the environment.
  Each dynamic call of \<^verbatim>\<open>datetime.utcnow()\<close> has its own reading, named by the place
  of the call: the two defaults of the sync window, and for record \<open>j\<close> of task \<open>i\<close>
  the default start date, the default end date and the processing stamp.
  Each adapter call is indexed by the position of the task that makes it, so that two
  calls of one adapter may answer differently; \<open>Inl msg\<close> is an exception whose
  \<^verbatim>\<open>str()\<close> is \<open>msg\<close>. The parser and printer of ISO dates and the type checks
  of the schema library are parameters too.
\<close>

datatype clock_site =
    SyncStart
  | SyncEnd
  | RecordStart nat nat
  | RecordEnd nat nat
  | RecordProcessed nat nat

datatype ftype = TStr | TDecimal | TDatetime | TOptional ftype | TDict ftype ftype

record env =
  utcnow :: "clock_site \<Rightarrow> timestamp"
  fromisoformat :: "string \<Rightarrow> timestamp option"
  isoformat :: "timestamp \<Rightarrow> string"
  rejects :: "ftype \<Rightarrow> pyval \<Rightarrow> bool"
  aws_get_cost_and_usage :: "nat \<Rightarrow> timestamp \<Rightarrow> timestamp \<Rightarrow> string + pydict list"
  azure_get_cost_data :: "nat \<Rightarrow> timestamp \<Rightarrow> timestamp \<Rightarrow> string + pydict list"
  gcp_get_cost_data :: "nat \<Rightarrow> timestamp \<Rightarrow> timestamp \<Rightarrow> string + pydict list"


section \<open>Building one cost record\<close>

text \<open>\<^verbatim>\<open>datetime.fromisoformat(v)\<close>: a type error unless \<open>v\<close> is a string, a value
  error when the string does not parse.\<close>

definition py_fromisoformat :: "env \<Rightarrow> pyval \<Rightarrow> py_error + timestamp" where
  "py_fromisoformat env v =
     (case v of
        PyStr s \<Rightarrow> (case fromisoformat env s of None \<Rightarrow> Inl ValueError | Some t \<Rightarrow> Inr t)
      | _ \<Rightarrow> Inl TypeError)"

text \<open>
  \<^verbatim>\<open>datetime.fromisoformat(item[k]) if item.get(k) else datetime.utcnow()\<close>
\<close>

definition date_arg :: "env \<Rightarrow> clock_site \<Rightarrow> pydict \<Rightarrow> string \<Rightarrow> py_error + timestamp" where
  "date_arg env site item k =
     (if truthy (dict_get item k PyNone)
      then and_then (subscript item k) (py_fromisoformat env)
      else Inr (utcnow env site))"

text \<open>
  The keyword arguments of the call \<^verbatim>\<open>CostDataCreate(provider=..., ...)\<close> in
  \<^verbatim>\<open>_process_and_store_cost_data\<close>, evaluated left to right for record \<open>j\<close> of
  task \<open>i\<close>.
\<close>

definition cost_record_kwargs :: "env \<Rightarrow> nat \<Rightarrow> nat \<Rightarrow> pydict \<Rightarrow> string \<Rightarrow> py_error + pydict" where
  "cost_record_kwargs env i j item provider =
     and_then (py_get (dict_get item ''dimensions'' (PyDict [])) ''service'' (PyStr ''Unknown'')) (\<lambda>service.
     and_then (py_get (dict_get item ''dimensions'' (PyDict [])) ''region'' (PyStr ''Unknown'')) (\<lambda>region.
     and_then (py_get (dict_get item ''dimensions'' (PyDict [])) ''resource_id'' PyNone) (\<lambda>resource_id.
     and_then (subscript item ''cost_amount'') (\<lambda>cost_amount.
     and_then (subscript item ''cost_currency'') (\<lambda>cost_currency.
     and_then (date_arg env (RecordStart i j) item ''start_date'') (\<lambda>start_date.
     and_then (date_arg env (RecordEnd i j) item ''end_date'') (\<lambda>end_date.
       Inr [(''provider'', PyStr provider),
            (''service'', service),
            (''region'', region),
            (''resource_id'', resource_id),
            (''cost_amount'', cost_amount),
            (''cost_currency'', cost_currency),
            (''usage_quantity'', dict_get item ''usage_quantity'' PyNone),
            (''usage_unit'', dict_get item ''usage_unit'' PyNone),
            (''start_date'', PyDatetime start_date),
            (''end_date'', PyDatetime end_date),
            (''tags'', dict_get item ''dimensions'' (PyDict [])),
            (''metadata'', PyDict
               [(''raw_data'', PyDict item),
                (''processed_at'', PyStr (isoformat env (utcnow env (RecordProcessed i j))))])])))))))"

text \<open>
  The fields of \<^verbatim>\<open>CostDataBase\<close>, in declaration order: name, declared type, and the
  default (\<open>None\<close> for a field declared with \<^verbatim>\<open>Field(...)\<close>, which is required).
\<close>

definition CostDataBase_fields :: "(string \<times> ftype \<times> pyval option) list" where
  "CostDataBase_fields =
     [(''provider'', TStr, None),
      (''service'', TStr, None),
      (''resource_id'', TStr, None),
      (''resource_type'', TStr, None),
      (''region'', TStr, None),
      (''cost_amount'', TDecimal, None),
      (''cost_currency'', TStr, Some (PyStr ''USD'')),
      (''usage_quantity'', TOptional TDecimal, Some PyNone),
      (''usage_unit'', TOptional TStr, Some PyNone),
      (''tags'', TDict TStr TStr, Some (PyDict [])),
      (''timestamp'', TDatetime, None)]"

fun field_missing :: "pydict \<Rightarrow> string \<times> ftype \<times> pyval option \<Rightarrow> bool" where
  "field_missing kwargs (name, ty, dflt) = (map_of kwargs name = None \<and> dflt = None)"

fun field_invalid :: "env \<Rightarrow> pydict \<Rightarrow> string \<times> ftype \<times> pyval option \<Rightarrow> bool" where
  "field_invalid env kwargs (name, ty, dflt) =
     (case map_of kwargs name of None \<Rightarrow> False | Some v \<Rightarrow> rejects env ty v)"

fun field_value :: "pydict \<Rightarrow> string \<times> ftype \<times> pyval option \<Rightarrow> string \<times> pyval" where
  "field_value kwargs (name, ty, dflt) =
     (name, case map_of kwargs name of
              Some v \<Rightarrow> v
            | None \<Rightarrow> (case dflt of Some d \<Rightarrow> d | None \<Rightarrow> PyNone))"

text \<open>
  The constructor of the schema class \<^verbatim>\<open>CostDataCreate\<close> (it adds nothing to
  \<^verbatim>\<open>CostDataBase\<close>): keyword arguments that name no field are ignored, a required
  field that was not passed or a passed value of the wrong type raises the validation
  error, and otherwise the model holds every field, defaults filled in.
\<close>

definition CostDataCreate :: "env \<Rightarrow> pydict \<Rightarrow> py_error + pydict" where
  "CostDataCreate env kwargs =
     (let missing = map fst (filter (field_missing kwargs) CostDataBase_fields);
          invalid = map fst (filter (field_invalid env kwargs) CostDataBase_fields)
      in if missing = [] \<and> invalid = []
         then Inr (map (field_value kwargs) CostDataBase_fields)
         else Inl (ValidationError missing invalid))"

text \<open>The body of the \<^verbatim>\<open>try\<close> block for one raw record.\<close>

definition make_cost_record :: "env \<Rightarrow> nat \<Rightarrow> nat \<Rightarrow> pydict \<Rightarrow> string \<Rightarrow> py_error + pydict" where
  "make_cost_record env i j item provider =
     and_then (cost_record_kwargs env i j item provider) (CostDataCreate env)"


section \<open>One provider pipeline\<close>

text \<open>
  The loop of \<^verbatim>\<open>_process_and_store_cost_data\<close>: \<open>j\<close> is the position of the next
  record; an exception of the \<^verbatim>\<open>try\<close> block is logged and the loop continues.
\<close>

fun process_records :: "env \<Rightarrow> nat \<Rightarrow> string \<Rightarrow> nat \<Rightarrow> pydict list \<Rightarrow> nat \<Rightarrow> nat" where
  "process_records env i provider j [] processed_count = processed_count"
| "process_records env i provider j (item # items) processed_count =
     (case make_cost_record env i j item provider of
        Inr cost_record \<Rightarrow> process_records env i provider (Suc j) items (processed_count + 1)
      | Inl e \<Rightarrow> process_records env i provider (Suc j) items processed_count)"

definition process_and_store_cost_data :: "env \<Rightarrow> nat \<Rightarrow> pydict list \<Rightarrow> string \<Rightarrow> nat" where
  "process_and_store_cost_data env i raw_cost_data provider =
     process_records env i provider 0 raw_cost_data 0"

text \<open>
  The result dictionary of one pipeline: \<^verbatim>\<open>status\<close>, \<^verbatim>\<open>records_processed\<close>, and
  either \<^verbatim>\<open>provider\<close> (a pipeline that returned) or \<^verbatim>\<open>error\<close> (one that raised);
  the two optional keys are the fields \<open>provider_name\<close> and \<open>error_message\<close>.
\<close>

record sync_result =
  status :: string
  records_processed :: nat
  provider_name :: "string option"
  error_message :: "string option"

text \<open>The three pipelines; an exception of the adapter is logged and raised again.\<close>

definition sync_aws_data :: "env \<Rightarrow> nat \<Rightarrow> timestamp \<Rightarrow> timestamp \<Rightarrow> string + sync_result" where
  "sync_aws_data env i start_date end_date =
     (case aws_get_cost_and_usage env i start_date end_date of
        Inl e \<Rightarrow> Inl e
      | Inr cost_data \<Rightarrow>
          Inr \<lparr>status = ''success'',
               records_processed = process_and_store_cost_data env i cost_data ''aws'',
               provider_name = Some ''aws'', error_message = None\<rparr>)"

definition sync_azure_data :: "env \<Rightarrow> nat \<Rightarrow> timestamp \<Rightarrow> timestamp \<Rightarrow> string + sync_result" where
  "sync_azure_data env i start_date end_date =
     (case azure_get_cost_data env i start_date end_date of
        Inl e \<Rightarrow> Inl e
      | Inr cost_data \<Rightarrow>
          Inr \<lparr>status = ''success'',
               records_processed = process_and_store_cost_data env i cost_data ''azure'',
               provider_name = Some ''azure'', error_message = None\<rparr>)"

definition sync_gcp_data :: "env \<Rightarrow> nat \<Rightarrow> timestamp \<Rightarrow> timestamp \<Rightarrow> string + sync_result" where
  "sync_gcp_data env i start_date end_date =
     (case gcp_get_cost_data env i start_date end_date of
        Inl e \<Rightarrow> Inl e
      | Inr cost_data \<Rightarrow>
          Inr \<lparr>status = ''success'',
               records_processed = process_and_store_cost_data env i cost_data ''gcp'',
               provider_name = Some ''gcp'', error_message = None\<rparr>)"


section \<open>The orchestrator\<close>

datatype task = AwsTask | AzureTask | GcpTask

text \<open>
  The first loop of \<^verbatim>\<open>sync_all_providers\<close>: one task per requested name that
  lower-cases to a known provider, in request order; any other name is logged and
  skipped.
\<close>

fun create_tasks :: "string list \<Rightarrow> task list" where
  "create_tasks [] = []"
| "create_tasks (provider # providers) =
     (if lower provider = ''aws'' then AwsTask # create_tasks providers
      else if lower provider = ''azure'' then AzureTask # create_tasks providers
      else if lower provider = ''gcp'' then GcpTask # create_tasks providers
      else create_tasks providers)"

definition run_task :: "env \<Rightarrow> timestamp \<Rightarrow> timestamp \<Rightarrow> nat \<Rightarrow> task \<Rightarrow> string + sync_result" where
  "run_task env start_date end_date i t =
     (case t of
        AwsTask \<Rightarrow> sync_aws_data env i start_date end_date
      | AzureTask \<Rightarrow> sync_azure_data env i start_date end_date
      | GcpTask \<Rightarrow> sync_gcp_data env i start_date end_date)"

text \<open>
  \<^verbatim>\<open>asyncio.gather(*tasks, return_exceptions=True)\<close>: the outcome of every task, in
  task order, an exception being an outcome like any other.
\<close>

definition gather :: "env \<Rightarrow> timestamp \<Rightarrow> timestamp \<Rightarrow> task list \<Rightarrow> (string + sync_result) list" where
  "gather env start_date end_date tasks =
     map (\<lambda>(i, t). run_task env start_date end_date i t) (enumerate 0 tasks)"

text \<open>What the second loop stores for one outcome.\<close>

definition result_entry :: "string + sync_result \<Rightarrow> sync_result" where
  "result_entry result =
     (case result of
        Inl msg \<Rightarrow> \<lparr>status = ''error'', records_processed = 0, provider_name = None, error_message = Some msg\<rparr>
      | Inr r \<Rightarrow> r)"

text \<open>
  The second loop: outcome number \<open>i\<close> is stored under \<^verbatim>\<open>providers[i]\<close>. The
  \<^verbatim>\<open>results\<close> dictionary keeps insertion order and one binding per key.
\<close>

fun process_results ::
  "string list \<Rightarrow> (nat \<times> (string + sync_result)) list \<Rightarrow> (string \<times> sync_result) list
     \<Rightarrow> (string \<times> sync_result) list" where
  "process_results providers [] results = results"
| "process_results providers ((i, result) # rest) results =
     process_results providers rest (AList.update (providers ! i) (result_entry result) results)"

record sync_report =
  overall_status :: string
  total_records_processed :: nat
  provider_results :: "(string \<times> sync_result) list"
  sync_period :: "string \<times> string"

text \<open>\<^verbatim>\<open>timedelta(days=30)\<close> in microseconds.\<close>

definition days_30 :: int where
  "days_30 = 30 * 86400 * 1000000"

definition sync_all_providers ::
  "env \<Rightarrow> timestamp option \<Rightarrow> timestamp option \<Rightarrow> string list option \<Rightarrow> sync_report" where
  "sync_all_providers env start_date end_date providers =
     (let start_date = (case start_date of None \<Rightarrow> utcnow env SyncStart - days_30 | Some s \<Rightarrow> s);
          end_date = (case end_date of None \<Rightarrow> utcnow env SyncEnd | Some e \<Rightarrow> e);
          providers = (case providers of None \<Rightarrow> [''aws'', ''azure'', ''gcp''] | Some ps \<Rightarrow> ps);
          tasks = create_tasks providers;
          completed_results = gather env start_date end_date tasks;
          results = process_results providers (enumerate 0 completed_results) [];
          total_records = sum_list (map (\<lambda>r. records_processed r) (map snd results))
      in \<lparr>overall_status = ''completed'',
          total_records_processed = total_records,
          provider_results = results,
          sync_period = (isoformat env start_date, isoformat env end_date)\<rparr>)"


section \<open>Vocabulary of the statements\<close>

text \<open>The adapter a task calls, and the provider tag its pipeline passes on.\<close>

definition adapter_call ::
  "env \<Rightarrow> task \<Rightarrow> nat \<Rightarrow> timestamp \<Rightarrow> timestamp \<Rightarrow> string + pydict list" where
  "adapter_call env t i start_date end_date =
     (case t of
        AwsTask \<Rightarrow> aws_get_cost_and_usage env i start_date end_date
      | AzureTask \<Rightarrow> azure_get_cost_data env i start_date end_date
      | GcpTask \<Rightarrow> gcp_get_cost_data env i start_date end_date)"

definition provider_tag :: "task \<Rightarrow> string" where
  "provider_tag t = (case t of AwsTask \<Rightarrow> ''aws'' | AzureTask \<Rightarrow> ''azure'' | GcpTask \<Rightarrow> ''gcp'')"

text \<open>A requested name the first loop knows, and the task it creates for it.\<close>

definition recognized :: "string \<Rightarrow> bool" where
  "recognized name = (lower name = ''aws'' \<or> lower name = ''azure'' \<or> lower name = ''gcp'')"

definition task_of :: "string \<Rightarrow> task" where
  "task_of name =
     (if lower name = ''aws'' then AwsTask
      else if lower name = ''azure'' then AzureTask
      else GcpTask)"

text \<open>
  The records of a batch (with their positions, counted from \<open>j\<close>) whose
  \<^verbatim>\<open>try\<close> block raises.
\<close>

definition failed_records ::
  "env \<Rightarrow> nat \<Rightarrow> string \<Rightarrow> nat \<Rightarrow> pydict list \<Rightarrow> (nat \<times> pydict) list" where
  "failed_records env i provider j items =
     filter (\<lambda>(j, item). isl (make_cost_record env i j item provider)) (enumerate j items)"

text \<open>
  When the evaluation of the keyword arguments raises, in words: the value under
  \<^verbatim>\<open>dimensions\<close> is present and not a mapping, \<^verbatim>\<open>cost_amount\<close> or
  \<^verbatim>\<open>cost_currency\<close> is absent, or a date is present, truthy and not a string that
  parses. \<open>kwargs_error\<close> is the exception of the first of these, in evaluation order.
\<close>

definition is_mapping :: "pyval \<Rightarrow> bool" where
  "is_mapping v = (case v of PyDict d \<Rightarrow> True | _ \<Rightarrow> False)"

definition dimensions_unusable :: "pydict \<Rightarrow> bool" where
  "dimensions_unusable item =
     (case map_of item ''dimensions'' of None \<Rightarrow> False | Some v \<Rightarrow> \<not> is_mapping v)"

definition date_unreadable :: "env \<Rightarrow> pydict \<Rightarrow> string \<Rightarrow> bool" where
  "date_unreadable env item k =
     (case map_of item k of
        None \<Rightarrow> False
      | Some v \<Rightarrow> truthy v \<and> (case v of PyStr s \<Rightarrow> fromisoformat env s = None | _ \<Rightarrow> True))"

definition date_error :: "pydict \<Rightarrow> string \<Rightarrow> py_error" where
  "date_error item k = (case map_of item k of Some (PyStr s) \<Rightarrow> ValueError | _ \<Rightarrow> TypeError)"

definition kwargs_raise :: "env \<Rightarrow> pydict \<Rightarrow> bool" where
  "kwargs_raise env item =
     (dimensions_unusable item
      \<or> map_of item ''cost_amount'' = None
      \<or> map_of item ''cost_currency'' = None
      \<or> date_unreadable env item ''start_date''
      \<or> date_unreadable env item ''end_date'')"

definition kwargs_error :: "env \<Rightarrow> pydict \<Rightarrow> py_error" where
  "kwargs_error env item =
     (if dimensions_unusable item then AttributeError
      else if map_of item ''cost_amount'' = None then KeyError ''cost_amount''
      else if map_of item ''cost_currency'' = None then KeyError ''cost_currency''
      else if date_unreadable env item ''start_date'' then date_error item ''start_date''
      else date_error item ''end_date'')"

text \<open>
  The keyword arguments in words: a dimension or the given default, a field of the raw
  record or \<^verbatim>\<open>None\<close>, a date of the raw record or the clock's reading.
\<close>

definition dimension_or :: "pydict \<Rightarrow> string \<Rightarrow> pyval \<Rightarrow> pyval" where
  "dimension_or item k dflt =
     (case map_of item ''dimensions'' of
        Some (PyDict d) \<Rightarrow> (case map_of d k of Some v \<Rightarrow> v | None \<Rightarrow> dflt)
      | _ \<Rightarrow> dflt)"

definition field_or_none :: "pydict \<Rightarrow> string \<Rightarrow> pyval" where
  "field_or_none item k = (case map_of item k of Some v \<Rightarrow> v | None \<Rightarrow> PyNone)"

definition date_or_now :: "env \<Rightarrow> clock_site \<Rightarrow> pydict \<Rightarrow> string \<Rightarrow> timestamp" where
  "date_or_now env site item k =
     (case map_of item k of
        Some (PyStr s) \<Rightarrow>
          (if s = [] then utcnow env site
           else (case fromisoformat env s of Some t \<Rightarrow> t | None \<Rightarrow> utcnow env site))
      | _ \<Rightarrow> utcnow env site)"

definition tags_of :: "pydict \<Rightarrow> pyval" where
  "tags_of item = (case map_of item ''dimensions'' of Some v \<Rightarrow> v | None \<Rightarrow> PyDict [])"

definition substituted_kwargs :: "env \<Rightarrow> nat \<Rightarrow> nat \<Rightarrow> pydict \<Rightarrow> string \<Rightarrow> pydict" where
  "substituted_kwargs env i j item provider =
     [(''provider'', PyStr provider),
      (''service'', dimension_or item ''service'' (PyStr ''Unknown'')),
      (''region'', dimension_or item ''region'' (PyStr ''Unknown'')),
      (''resource_id'', dimension_or item ''resource_id'' PyNone),
      (''cost_amount'', field_or_none item ''cost_amount''),
      (''cost_currency'', field_or_none item ''cost_currency''),
      (''usage_quantity'', field_or_none item ''usage_quantity''),
      (''usage_unit'', field_or_none item ''usage_unit''),
      (''start_date'', PyDatetime (date_or_now env (RecordStart i j) item ''start_date'')),
      (''end_date'', PyDatetime (date_or_now env (RecordEnd i j) item ''end_date'')),
      (''tags'', tags_of item),
      (''metadata'', PyDict
         [(''raw_data'', PyDict item),
          (''processed_at'', PyStr (isoformat env (utcnow env (RecordProcessed i j))))])]"

text \<open>The keyword arguments without the three that can hold a reading of the clock.\<close>

definition clock_free :: "pydict \<Rightarrow> pydict" where
  "clock_free kw =
     filter (\<lambda>(k, v). k \<noteq> ''start_date'' \<and> k \<noteq> ''end_date'' \<and> k \<noteq> ''metadata'') kw"

text \<open>
  Test doubles for the concrete evaluations: an environment with a given clock and given
  adapters, whose date parser knows one string, whose date printer knows three instants
  and whose schema checks reject nothing; and a few raw records.
\<close>

definition stub_env ::
  "(clock_site \<Rightarrow> timestamp) \<Rightarrow> (nat \<Rightarrow> string + pydict list) \<Rightarrow> (nat \<Rightarrow> string + pydict list)
     \<Rightarrow> (nat \<Rightarrow> string + pydict list) \<Rightarrow> env" where
  "stub_env clock aws azure gcp =
     \<lparr>utcnow = clock,
      fromisoformat = (\<lambda>s. if s = ''2024-01-01'' then Some 1704067200000000 else None),
      isoformat = (\<lambda>t. if t = 1704067200000000 then ''2024-01-01T00:00:00''
                        else if t = 1000000 then ''1970-01-01T00:00:01''
                        else ''1970-01-01T00:00:00''),
      rejects = (\<lambda>ty v. False),
      aws_get_cost_and_usage = (\<lambda>i s e. aws i),
      azure_get_cost_data = (\<lambda>i s e. azure i),
      gcp_get_cost_data = (\<lambda>i s e. gcp i)\<rparr>"

definition complete_item :: pydict where
  "complete_item =
     [(''dimensions'', PyDict [(''service'', PyStr ''EC2''), (''region'', PyStr ''us-east-1''),
                               (''resource_id'', PyStr ''i-0abc'')]),
      (''cost_amount'', PyNum 12.5),
      (''cost_currency'', PyStr ''USD''),
      (''usage_quantity'', PyNum 3),
      (''usage_unit'', PyStr ''Hrs''),
      (''start_date'', PyStr ''2024-01-01''),
      (''end_date'', PyStr ''2024-01-01'')]"

definition bare_item :: pydict where
  "bare_item = [(''cost_amount'', PyNum 12.5), (''cost_currency'', PyStr ''USD'')]"

definition no_currency_item :: pydict where
  "no_currency_item =
     [(''dimensions'', PyDict [(''service'', PyStr ''EC2''), (''region'', PyStr ''us-east-1'')]),
      (''cost_amount'', PyNum 12.5),
      (''start_date'', PyStr ''2024-01-01''),
      (''end_date'', PyStr ''2024-01-01'')]"

definition started_item :: pydict where
  "started_item =
     [(''cost_amount'', PyNum 12.5), (''cost_currency'', PyStr ''USD''),
      (''start_date'', PyStr ''2024-01-01'')]"

definition bad_date_item :: pydict where
  "bad_date_item =
     [(''cost_amount'', PyNum 12.5), (''cost_currency'', PyStr ''USD''),
      (''start_date'', PyStr ''yesterday'')]"

definition null_dimensions_item :: pydict where
  "null_dimensions_item =
     [(''dimensions'', PyNone), (''cost_amount'', PyNum 12.5), (''cost_currency'', PyStr ''USD'')]"


section \<open>Basic facts\<close>

lemma and_then_Inl [simp]: "and_then (Inl e) f = Inl e"
  by (simp add: and_then_def)

lemma and_then_Inr [simp]: "and_then (Inr v) f = f v"
  by (simp add: and_then_def)

lemmas lower_simps = lower_def lower_char_def


section \<open>Building one cost record\<close>

lemma py_get_dimensions:
  "py_get (dict_get item ''dimensions'' (PyDict [])) k dflt =
     (if dimensions_unusable item then Inl AttributeError else Inr (dimension_or item k dflt))"
  by (simp add: py_get_def dict_get_def dimensions_unusable_def dimension_or_def is_mapping_def
      split: option.splits pyval.splits)

lemma date_arg_eq:
  "date_arg env site item k =
     (if date_unreadable env item k then Inl (date_error item k)
      else Inr (date_or_now env site item k))"
  by (auto simp add: date_arg_def date_unreadable_def date_error_def dict_get_def subscript_def
      py_fromisoformat_def date_or_now_def split: option.splits pyval.splits)

lemma subscript_eq:
  "subscript d k = (if map_of d k = None then Inl (KeyError k) else Inr (field_or_none d k))"
  by (auto simp add: subscript_def field_or_none_def split: option.splits)

text \<open>The evaluation of the keyword arguments, in the words of the vocabulary.\<close>

lemma cost_record_kwargs_eq:
  "cost_record_kwargs env i j item provider =
     (if kwargs_raise env item then Inl (kwargs_error env item)
      else Inr (substituted_kwargs env i j item provider))"
  unfolding cost_record_kwargs_def py_get_dimensions subscript_eq date_arg_eq
  by (simp add: kwargs_raise_def kwargs_error_def substituted_kwargs_def dict_get_def
      field_or_none_def tags_of_def)

text \<open>
  The call never passes \<^verbatim>\<open>resource_type\<close> (nor \<^verbatim>\<open>timestamp\<close>), which the schema
  requires: the constructor raises on every record, whatever the record holds.
\<close>

lemma kwargs_lack_resource_type:
  "cost_record_kwargs env i j item provider = Inr kw \<Longrightarrow> map_of kw ''resource_type'' = None"
  by (auto simp add: cost_record_kwargs_eq substituted_kwargs_def split: if_splits)

lemma CostDataCreate_needs_resource_type:
  "map_of kw ''resource_type'' = None \<Longrightarrow> isl (CostDataCreate env kw)"
  by (simp add: CostDataCreate_def CostDataBase_fields_def Let_def)

lemma make_cost_record_raises: "isl (make_cost_record env i j item provider)"
proof (cases "cost_record_kwargs env i j item provider")
  case (Inl e)
  then show ?thesis by (simp add: make_cost_record_def)
next
  case (Inr kw)
  then show ?thesis
    using CostDataCreate_needs_resource_type [OF kwargs_lack_resource_type [OF Inr], of env]
    by (simp add: make_cost_record_def)
qed

text \<open>
  Claim C5, as amended. The arguments of the record are built unless \<^verbatim>\<open>cost_amount\<close>
  or \<^verbatim>\<open>cost_currency\<close> is absent from the raw record, the value under
  \<^verbatim>\<open>dimensions\<close> is not a mapping, or a start or end date is present, truthy and not
  a string that parses; when they are built, a missing service or region is
  \<open>Unknown\<close>, a missing resource id, usage quantity or usage unit is \<^verbatim>\<open>None\<close>, and
  a missing or empty date is the reading of the clock.
\<close>

theorem kwargs_built_unless_required_missing:
  "isl (cost_record_kwargs env i j item provider) = kwargs_raise env item
   \<and> (kwargs_raise env item
      \<or> cost_record_kwargs env i j item provider = Inr (substituted_kwargs env i j item provider))"
  by (simp add: cost_record_kwargs_eq)

theorem kwargs_built_unless_required_missing_witness:
  "cost_record_kwargs (stub_env (\<lambda>site. 0) (\<lambda>i. Inr []) (\<lambda>i. Inr []) (\<lambda>i. Inr [])) 0 0
       bare_item ''aws'' =
     Inr [(''provider'', PyStr ''aws''),
          (''service'', PyStr ''Unknown''),
          (''region'', PyStr ''Unknown''),
          (''resource_id'', PyNone),
          (''cost_amount'', PyNum 12.5),
          (''cost_currency'', PyStr ''USD''),
          (''usage_quantity'', PyNone),
          (''usage_unit'', PyNone),
          (''start_date'', PyDatetime 0),
          (''end_date'', PyDatetime 0),
          (''tags'', PyDict []),
          (''metadata'', PyDict
             [(''raw_data'', PyDict bare_item),
              (''processed_at'', PyStr ''1970-01-01T00:00:00'')])]"
  using kwargs_built_unless_required_missing
    [of "stub_env (\<lambda>site. 0) (\<lambda>i. Inr []) (\<lambda>i. Inr []) (\<lambda>i. Inr [])" 0 0 bare_item "''aws''"]
  by (simp add: kwargs_raise_def dimensions_unusable_def date_unreadable_def
      substituted_kwargs_def dimension_or_def field_or_none_def date_or_now_def tags_of_def
      bare_item_def stub_env_def)

text \<open>
  Claim C5 as stated fails. Each of three records has a \<^verbatim>\<open>cost_amount\<close> that is
  present and numeric, and none is normalized: the one without \<^verbatim>\<open>cost_currency\<close>
  (the subscript raises), the one whose start date does not parse (no clock reading
  is substituted) and the one whose \<^verbatim>\<open>dimensions\<close> is \<^verbatim>\<open>None\<close>.
\<close>

theorem missing_currency_counterexample:
  "make_cost_record (stub_env (\<lambda>site. 0) (\<lambda>i. Inr []) (\<lambda>i. Inr []) (\<lambda>i. Inr [])) 0 0
       no_currency_item ''aws'' = Inl (KeyError ''cost_currency'')
   \<and> map_of no_currency_item ''cost_amount'' = Some (PyNum 12.5)
   \<and> make_cost_record (stub_env (\<lambda>site. 0) (\<lambda>i. Inr []) (\<lambda>i. Inr []) (\<lambda>i. Inr [])) 0 0
       bad_date_item ''aws'' = Inl ValueError
   \<and> map_of bad_date_item ''cost_amount'' = Some (PyNum 12.5)
   \<and> make_cost_record (stub_env (\<lambda>site. 0) (\<lambda>i. Inr []) (\<lambda>i. Inr []) (\<lambda>i. Inr [])) 0 0
       null_dimensions_item ''aws'' = Inl AttributeError
   \<and> map_of null_dimensions_item ''cost_amount'' = Some (PyNum 12.5)"
  by (simp add: make_cost_record_def cost_record_kwargs_eq kwargs_raise_def kwargs_error_def
      dimensions_unusable_def is_mapping_def date_unreadable_def date_error_def
      no_currency_item_def bad_date_item_def null_dimensions_item_def stub_env_def)

lemma date_unreadable_cong:
  "fromisoformat env' = fromisoformat env \<Longrightarrow>
   date_unreadable env' item k = date_unreadable env item k"
  by (simp add: date_unreadable_def split: option.splits pyval.splits)

lemma kwargs_raise_cong:
  "fromisoformat env' = fromisoformat env \<Longrightarrow> kwargs_raise env' item = kwargs_raise env item"
  using date_unreadable_cong [of env' env item] by (simp add: kwargs_raise_def)

lemma kwargs_error_cong:
  "fromisoformat env' = fromisoformat env \<Longrightarrow> kwargs_error env' item = kwargs_error env item"
  using date_unreadable_cong [of env' env item] by (simp add: kwargs_error_def)

lemma clock_free_substituted:
  "clock_free (substituted_kwargs env i j item provider) =
     [(''provider'', PyStr provider),
      (''service'', dimension_or item ''service'' (PyStr ''Unknown'')),
      (''region'', dimension_or item ''region'' (PyStr ''Unknown'')),
      (''resource_id'', dimension_or item ''resource_id'' PyNone),
      (''cost_amount'', field_or_none item ''cost_amount''),
      (''cost_currency'', field_or_none item ''cost_currency''),
      (''usage_quantity'', field_or_none item ''usage_quantity''),
      (''usage_unit'', field_or_none item ''usage_unit''),
      (''tags'', tags_of item)]"
  by (simp add: clock_free_def substituted_kwargs_def)

lemma date_or_now_cong:
  assumes "fromisoformat env' = fromisoformat env"
    and "truthy (dict_get item k PyNone) \<or> utcnow env' site' = utcnow env site"
    and "\<not> date_unreadable env item k"
  shows "date_or_now env' site' item k = date_or_now env site item k"
  using assms
  by (auto simp add: date_or_now_def dict_get_def date_unreadable_def
      split: option.splits pyval.splits)

text \<open>
  Claim C8, as amended. Normalization depends on the raw record, the provider tag and
  the clock, and on nothing else: two runs on one record and tag (with the same date
  parser) raise the same exception or both build the arguments; the built arguments
  agree on every field other than the start date, the end date and the metadata; and
  they agree on all fields when the processing stamp reads the same in both runs and,
  for each date that the raw record lacks or holds empty, the clock reads the same.
\<close>

theorem normalization_deterministic_up_to_clock:
  assumes "fromisoformat env' = fromisoformat env"
  shows "map_sum id clock_free (cost_record_kwargs env' i' j' item provider)
           = map_sum id clock_free (cost_record_kwargs env i j item provider)
     \<and> (isoformat env' = isoformat env
        \<and> utcnow env' (RecordProcessed i' j') = utcnow env (RecordProcessed i j)
        \<and> (truthy (dict_get item ''start_date'' PyNone)
             \<or> utcnow env' (RecordStart i' j') = utcnow env (RecordStart i j))
        \<and> (truthy (dict_get item ''end_date'' PyNone)
             \<or> utcnow env' (RecordEnd i' j') = utcnow env (RecordEnd i j))
        \<longrightarrow> cost_record_kwargs env' i' j' item provider = cost_record_kwargs env i j item provider)"
proof (cases "kwargs_raise env item")
  case True
  then show ?thesis
    using kwargs_raise_cong [OF assms, of item] kwargs_error_cong [OF assms, of item]
    by (simp add: cost_record_kwargs_eq)
next
  case False
  then have s: "\<not> date_unreadable env item ''start_date''"
    and e: "\<not> date_unreadable env item ''end_date''"
    by (simp_all add: kwargs_raise_def)
  have r: "\<not> kwargs_raise env' item"
    using False kwargs_raise_cong [OF assms, of item] by simp
  have first: "map_sum id clock_free (cost_record_kwargs env' i' j' item provider)
           = map_sum id clock_free (cost_record_kwargs env i j item provider)"
    using False r by (simp add: cost_record_kwargs_eq clock_free_substituted)
  have second: "cost_record_kwargs env' i' j' item provider = cost_record_kwargs env i j item provider"
    if "isoformat env' = isoformat env"
      and "utcnow env' (RecordProcessed i' j') = utcnow env (RecordProcessed i j)"
      and "truthy (dict_get item ''start_date'' PyNone)
             \<or> utcnow env' (RecordStart i' j') = utcnow env (RecordStart i j)"
      and "truthy (dict_get item ''end_date'' PyNone)
             \<or> utcnow env' (RecordEnd i' j') = utcnow env (RecordEnd i j)"
    using False r that date_or_now_cong [OF assms that(3) s] date_or_now_cong [OF assms that(4) e]
    by (simp add: cost_record_kwargs_eq substituted_kwargs_def)
  from first second show ?thesis by blast
qed

text \<open>
  A witness: the two clocks differ where the default start date is read, the raw record
  has a start date, and the two runs build the same arguments.
\<close>

theorem normalization_deterministic_up_to_clock_witness:
  "cost_record_kwargs
       (stub_env (\<lambda>site. if site = RecordStart 0 0 then 5000000 else 0)
          (\<lambda>i. Inr []) (\<lambda>i. Inr []) (\<lambda>i. Inr [])) 0 0 started_item ''aws''
     = cost_record_kwargs
         (stub_env (\<lambda>site. 0) (\<lambda>i. Inr []) (\<lambda>i. Inr []) (\<lambda>i. Inr [])) 0 0 started_item ''aws''
   \<and> utcnow (stub_env (\<lambda>site. if site = RecordStart 0 0 then 5000000 else 0)
          (\<lambda>i. Inr []) (\<lambda>i. Inr []) (\<lambda>i. Inr [])) (RecordStart 0 0)
     \<noteq> utcnow (stub_env (\<lambda>site. 0) (\<lambda>i. Inr []) (\<lambda>i. Inr []) (\<lambda>i. Inr [])) (RecordStart 0 0)"
  using normalization_deterministic_up_to_clock
    [of "stub_env (\<lambda>site. if site = RecordStart 0 0 then 5000000 else 0)
           (\<lambda>i. Inr []) (\<lambda>i. Inr []) (\<lambda>i. Inr [])"
        "stub_env (\<lambda>site. 0) (\<lambda>i. Inr []) (\<lambda>i. Inr []) (\<lambda>i. Inr [])"
        0 0 started_item "''aws''" 0 0]
  by (simp add: stub_env_def started_item_def dict_get_def)

text \<open>
  Claim C8 as stated fails: one raw record without dates, one provider tag, two runs one
  second apart, and the records built differ (in both dates and in the processing
  stamp of the snapshot).
\<close>

theorem clock_dependence_counterexample:
  "cost_record_kwargs (stub_env (\<lambda>site. 0) (\<lambda>i. Inr []) (\<lambda>i. Inr []) (\<lambda>i. Inr [])) 0 0
       bare_item ''aws''
     \<noteq> cost_record_kwargs (stub_env (\<lambda>site. 1000000) (\<lambda>i. Inr []) (\<lambda>i. Inr []) (\<lambda>i. Inr [])) 0 0
         bare_item ''aws''"
  by (simp add: cost_record_kwargs_eq kwargs_raise_def dimensions_unusable_def
      date_unreadable_def substituted_kwargs_def date_or_now_def bare_item_def stub_env_def)


section \<open>One provider pipeline\<close>


text \<open>The loop adds to the count the records of the batch that did not fail.\<close>

lemma process_records_count:
  "process_records env i provider j items n + length (failed_records env i provider j items)
     = n + length items"
proof (induction items arbitrary: j n)
  case Nil
  then show ?case by (simp add: failed_records_def)
next
  case (Cons item items)
  show ?case
  proof (cases "make_cost_record env i j item provider")
    case (Inl e)
    with Cons.IH [of "Suc j" n] show ?thesis by (simp add: failed_records_def)
  next
    case (Inr r)
    with Cons.IH [of "Suc j" "n + 1"] show ?thesis by (simp add: failed_records_def)
  qed
qed

lemma process_and_store_count:
  "process_and_store_cost_data env i items provider =
     length items - length (failed_records env i provider 0 items)"
  using process_records_count [of env i provider 0 items 0]
  by (simp add: process_and_store_cost_data_def)

text \<open>Every record raises in the constructor, so every record of a batch fails.\<close>

lemma failed_records_all:
  "failed_records env i provider j items = enumerate j items"
  by (simp add: failed_records_def make_cost_record_raises split_def)

lemma process_and_store_zero: "process_and_store_cost_data env i items provider = 0"
  by (simp add: process_and_store_count failed_records_all)




section \<open>The report of a sync cycle\<close>

text \<open>
  Claim C6. For every sync invocation, whatever the outcomes of the per-provider
  pipelines (including the case where all of them failed), the top-level status of the
  returned report is \<open>completed\<close>.
\<close>

theorem sync_status_always_completed:
  "overall_status (sync_all_providers env start_date end_date providers) = ''completed''"
  by (simp add: sync_all_providers_def Let_def)

text \<open>
  Claim C7. A sync called with an empty provider list returns a report (the model has
  no raising path out of \<open>sync_all_providers\<close>) whose per-provider results are empty
  and whose total of processed records is 0.
\<close>

theorem sync_empty_provider_list:
  "provider_results (sync_all_providers env start_date end_date (Some [])) = []
   \<and> total_records_processed (sync_all_providers env start_date end_date (Some [])) = 0"
  by (simp add: sync_all_providers_def Let_def gather_def)

text \<open>The results dictionary has one binding per key.\<close>

lemma process_results_distinct:
  "distinct (map fst results) \<Longrightarrow>
   distinct (map fst (process_results providers outcomes results))"
  by (induction providers outcomes results rule: process_results.induct)
     (simp_all add: AList.distinct_update)

lemma sum_list_entries:
  "distinct (map fst al) \<Longrightarrow>
   sum_list (map f (map snd al)) = (\<Sum>k \<in> dom (map_of al). f (the (map_of al k)))"
proof (induction al)
  case Nil
  then show ?case by simp
next
  case (Cons a al)
  obtain k v where a: "a = (k, v)" by (cases a)
  from Cons.prems a have k: "k \<notin> dom (map_of al)" and d: "distinct (map fst al)"
    by (auto simp: dom_map_of_conv_image_fst)
  have fin: "finite (dom (map_of al))" by (rule finite_dom_map_of)
  have "(\<Sum>k' \<in> dom (map_of (a # al)). f (the (map_of (a # al) k')))
      = (\<Sum>k' \<in> insert k (dom (map_of al)). f (the (map_of (a # al) k')))"
    by (simp add: a)
  also have "\<dots> = f v + (\<Sum>k' \<in> dom (map_of al). f (the (map_of (a # al) k')))"
    using k fin by (simp add: a)
  also have "(\<Sum>k' \<in> dom (map_of al). f (the (map_of (a # al) k')))
      = (\<Sum>k' \<in> dom (map_of al). f (the (map_of al k')))"
    using k by (intro sum.cong) (auto simp: a)
  finally show ?case using Cons.IH [OF d] by (simp add: a)
qed

text \<open>
  Claim C2. For every sync invocation and every mix of pipeline outcomes, the total of
  the report is the sum of \<open>records_processed\<close> over the entries of the per-provider
  results, read as a mapping from name to entry.
\<close>

theorem total_is_sum_of_entries:
  "total_records_processed (sync_all_providers env start_date end_date providers)
     = (\<Sum>name \<in> dom (map_of (provider_results
                                 (sync_all_providers env start_date end_date providers))).
          records_processed
            (the (map_of (provider_results
                            (sync_all_providers env start_date end_date providers)) name)))"
proof -
  let ?r = "sync_all_providers env start_date end_date providers"
  have d: "distinct (map fst (provider_results ?r))"
    by (simp add: sync_all_providers_def Let_def process_results_distinct)
  have "total_records_processed ?r
          = sum_list (map records_processed (map snd (provider_results ?r)))"
    by (simp add: sync_all_providers_def Let_def)
  with sum_list_entries [OF d, of records_processed] show ?thesis by simp
qed

theorem total_is_sum_of_entries_witness:
  "(\<Sum>name \<in> dom (map_of (provider_results
       (sync_all_providers
          (stub_env (\<lambda>site. 0) (\<lambda>i. Inr [complete_item]) (\<lambda>i. Inl ''azure unavailable'')
             (\<lambda>i. Inr [])) None None None))).
      records_processed (the (map_of (provider_results
       (sync_all_providers
          (stub_env (\<lambda>site. 0) (\<lambda>i. Inr [complete_item]) (\<lambda>i. Inl ''azure unavailable'')
             (\<lambda>i. Inr [])) None None None)) name))) = 0"
proof -
  have "total_records_processed
       (sync_all_providers
          (stub_env (\<lambda>site. 0) (\<lambda>i. Inr [complete_item]) (\<lambda>i. Inl ''azure unavailable'')
             (\<lambda>i. Inr [])) None None None) = 0"
    by (simp add: sync_all_providers_def Let_def gather_def run_task_def lower_simps
        sync_aws_data_def sync_azure_data_def sync_gcp_data_def result_entry_def
        process_and_store_zero stub_env_def)
  with total_is_sum_of_entries
    [of "stub_env (\<lambda>site. 0) (\<lambda>i. Inr [complete_item]) (\<lambda>i. Inl ''azure unavailable'')
           (\<lambda>i. Inr [])" None None None]
  show ?thesis by simp
qed


section \<open>Which name an outcome is stored under\<close>

text \<open>
  The first loop creates a task for each known name and for no other, so there are at
  most as many tasks as names and the index \<^verbatim>\<open>providers[i]\<close> of the second loop is
  always in range.
\<close>

lemma create_tasks_filter: "create_tasks ps = map task_of (filter recognized ps)"
  by (induction ps) (simp_all add: recognized_def task_of_def)

lemma length_create_tasks_le: "length (create_tasks ps) \<le> length ps"
  by (simp add: create_tasks_filter)

lemma length_gather [simp]: "length (gather env sd ed tasks) = length tasks"
  by (simp add: gather_def)

lemma nth_gather:
  "i < length tasks \<Longrightarrow> gather env sd ed tasks ! i = run_task env sd ed i (tasks ! i)"
  by (simp add: gather_def nth_enumerate_eq)

lemma process_results_updates:
  "n + length outs \<le> length ps \<Longrightarrow>
   process_results ps (enumerate n outs) res =
     AList.updates (take (length outs) (drop n ps)) (map result_entry outs) res"
proof (induction outs arbitrary: n res)
  case Nil
  then show ?case by simp
next
  case (Cons out outs)
  then have n: "n < length ps" by simp
  have "take (length (out # outs)) (drop n ps) = ps ! n # take (length outs) (drop (Suc n) ps)"
    using n by (simp add: Cons_nth_drop_Suc [symmetric])
  moreover from Cons.prems have "Suc n + length outs \<le> length ps" by simp
  ultimately show ?case using Cons.IH [of "Suc n"] by simp
qed

text \<open>
  What the second loop does on every request: with \<open>k\<close> known names in the request,
  the outcomes of the \<open>k\<close> pipelines are stored, in order, under the first \<open>k\<close>
  requested names, whether or not these are the names the pipelines were created for.
\<close>

lemma results_stored_under_first_names:
  "provider_results (sync_all_providers env start_date end_date (Some ps)) =
     AList.updates (take (length (filter recognized ps)) ps)
       (map result_entry
          (gather env
             (case start_date of None \<Rightarrow> utcnow env SyncStart - days_30 | Some s \<Rightarrow> s)
             (case end_date of None \<Rightarrow> utcnow env SyncEnd | Some e \<Rightarrow> e)
             (map task_of (filter recognized ps)))) []"
proof -
  let ?sd = "case start_date of None \<Rightarrow> utcnow env SyncStart - days_30 | Some s \<Rightarrow> s"
  let ?ed = "case end_date of None \<Rightarrow> utcnow env SyncEnd | Some e \<Rightarrow> e"
  let ?outs = "gather env ?sd ?ed (create_tasks ps)"
  have "0 + length ?outs \<le> length ps" by (simp add: length_create_tasks_le)
  from process_results_updates [OF this, of "[]"]
  show ?thesis by (simp add: sync_all_providers_def Let_def create_tasks_filter)
qed

lemma map_upds_nth:
  "distinct ks \<Longrightarrow> length ks = length vs \<Longrightarrow> i < length ks \<Longrightarrow>
   (m(ks [\<mapsto>] vs)) (ks ! i) = Some (vs ! i)"
proof (induction ks arbitrary: vs i m)
  case Nil
  then show ?case by simp
next
  case (Cons k ks)
  then obtain v vs' where vs: "vs = v # vs'" by (cases vs) auto
  show ?case
  proof (cases i)
    case 0
    with Cons.prems vs show ?thesis by simp
  next
    case (Suc i')
    from Cons.prems vs Suc have "distinct ks" "length ks = length vs'" "i' < length ks"
      by simp_all
    from Cons.IH [OF this, of "m(k \<mapsto> v)"] show ?thesis
      by (simp only: vs Suc map_upds_Cons nth_Cons_Suc)
  qed
qed

lemma updates_keys_fresh:
  "distinct ks \<Longrightarrow> length ks = length vs \<Longrightarrow>
   map fst (AList.updates ks vs al) = map fst al @ filter (\<lambda>k. k \<notin> fst ` set al) ks"
proof (induction ks arbitrary: vs al)
  case Nil
  then show ?case by simp
next
  case (Cons k ks)
  then obtain v vs' where vs: "vs = v # vs'" by (cases vs) auto
  from Cons.prems have k: "k \<notin> set ks" and d: "distinct ks" and l: "length ks = length vs'"
    by (simp_all add: vs)
  have f: "filter (\<lambda>x. x \<notin> fst ` set (AList.update k v al)) ks
             = filter (\<lambda>x. x \<notin> fst ` set al) ks"
    using k by (intro filter_cong) (auto simp add: AList.dom_update)
  show ?case
    using Cons.IH [OF d l, of "AList.update k v al"] f
    by (auto simp add: vs AList.update_keys image_iff)
qed

text \<open>
  On a request of distinct names that are all known, the second loop is right: the keys
  of the results are the requested names as the caller spelt them, and each name holds
  the outcome of the pipeline created for it.
\<close>

lemma aligned_keys:
  assumes "list_all recognized ps" and "distinct ps"
  shows "map fst (provider_results (sync_all_providers env start_date end_date (Some ps))) = ps"
proof -
  from assms(1) have f: "filter recognized ps = ps"
    by (simp add: list_all_iff)
  let ?vs = "map result_entry
          (gather env
             (case start_date of None \<Rightarrow> utcnow env SyncStart - days_30 | Some s \<Rightarrow> s)
             (case end_date of None \<Rightarrow> utcnow env SyncEnd | Some e \<Rightarrow> e)
             (map task_of ps))"
  have len: "length ps = length ?vs" by simp
  from updates_keys_fresh [OF assms(2) len, of "[]"] show ?thesis
    unfolding results_stored_under_first_names f by simp
qed

lemma aligned_entry:
  assumes "list_all recognized ps" and "distinct ps" and "i < length ps"
  shows "map_of (provider_results (sync_all_providers env start_date end_date (Some ps))) (ps ! i)
     = Some (result_entry (run_task env
          (case start_date of None \<Rightarrow> utcnow env SyncStart - days_30 | Some s \<Rightarrow> s)
          (case end_date of None \<Rightarrow> utcnow env SyncEnd | Some e \<Rightarrow> e)
          i (task_of (ps ! i))))"
proof -
  from assms(1) have f: "filter recognized ps = ps"
    by (simp add: list_all_iff)
  let ?vs = "map result_entry
          (gather env
             (case start_date of None \<Rightarrow> utcnow env SyncStart - days_30 | Some s \<Rightarrow> s)
             (case end_date of None \<Rightarrow> utcnow env SyncEnd | Some e \<Rightarrow> e)
             (map task_of ps))"
  have len: "length ps = length ?vs" by simp
  from map_upds_nth [OF assms(2) len assms(3), of "map_of []"] assms(3) show ?thesis
    unfolding results_stored_under_first_names f
    by (simp add: AList.updates_conv' nth_gather)
qed

text \<open>
  On such a request a pipeline whose adapter raises is reported as an error under its own
  name, with the message and no records, and a pipeline whose adapter returns is
  reported as a success under its own name, whatever the other adapters do.
\<close>

lemma run_task_outcome:
  "result_entry (run_task env sd ed i t) =
     (case adapter_call env t i sd ed of
        Inl msg \<Rightarrow> \<lparr>status = ''error'', records_processed = 0,
                     provider_name = None, error_message = Some msg\<rparr>
      | Inr items \<Rightarrow> \<lparr>status = ''success'', records_processed = 0,
                       provider_name = Some (provider_tag t), error_message = None\<rparr>)"
  by (cases t)
     (simp_all add: run_task_def adapter_call_def provider_tag_def result_entry_def
        sync_aws_data_def sync_azure_data_def sync_gcp_data_def process_and_store_zero
        split: sum.splits)

lemma aligned_outcome:
  assumes "list_all recognized ps" and "distinct ps" and "i < length ps"
  shows "map_of (provider_results (sync_all_providers env start_date end_date (Some ps))) (ps ! i)
     = Some (case adapter_call env (task_of (ps ! i)) i
               (case start_date of None \<Rightarrow> utcnow env SyncStart - days_30 | Some s \<Rightarrow> s)
               (case end_date of None \<Rightarrow> utcnow env SyncEnd | Some e \<Rightarrow> e) of
          Inl msg \<Rightarrow> \<lparr>status = ''error'', records_processed = 0,
                       provider_name = None, error_message = Some msg\<rparr>
        | Inr items \<Rightarrow> \<lparr>status = ''success'', records_processed = 0,
                         provider_name = Some (provider_tag (task_of (ps ! i))),
                         error_message = None\<rparr>)"
  using aligned_entry [OF assms] by (simp add: run_task_outcome)

text \<open>
  Claim C1, at a request that names an unknown provider before a known one. The only
  key of the results is the unknown name, and it holds the outcome of the AWS pipeline;
  the claim asks for the single key \<open>aws\<close>.
\<close>

theorem unknown_name_keys_the_entry:
  "provider_results (sync_all_providers env start_date end_date (Some [''foo'', ''aws'']))
     = [(''foo'', result_entry (sync_aws_data env 0
          (case start_date of None \<Rightarrow> utcnow env SyncStart - days_30 | Some s \<Rightarrow> s)
          (case end_date of None \<Rightarrow> utcnow env SyncEnd | Some e \<Rightarrow> e)))]"
  by (simp add: sync_all_providers_def Let_def gather_def run_task_def lower_simps)

text \<open>
  Claim C3, at a request that names an unknown provider first, with the Azure adapter
  raising and the AWS adapter returning. The entry of \<open>aws\<close> is the error of the Azure
  pipeline and there is no entry of \<open>azure\<close>; the claim asks for \<open>aws\<close> reported as
  success and \<open>azure\<close> as the error.
\<close>

theorem failure_reported_under_sibling_name:
  "provider_results
       (sync_all_providers
          (stub_env (\<lambda>site. 0) (\<lambda>i. Inr []) (\<lambda>i. Inl ''azure unavailable'') (\<lambda>i. Inr []))
          None None (Some [''foo'', ''aws'', ''azure'']))
     = [(''foo'', \<lparr>status = ''success'', records_processed = 0,
                   provider_name = Some ''aws'', error_message = None\<rparr>),
        (''aws'', \<lparr>status = ''error'', records_processed = 0,
                   provider_name = None, error_message = Some ''azure unavailable''\<rparr>)]"
  by (simp add: sync_all_providers_def Let_def gather_def run_task_def lower_simps stub_env_def
      sync_aws_data_def sync_azure_data_def result_entry_def process_and_store_zero)

text \<open>
  Claim C9, at a request that names an unknown provider before \<open>AWS\<close>. The AWS
  pipeline is launched, and its outcome is stored under the unknown name: the caller's
  spelling \<open>AWS\<close> is no key of the results.
\<close>

theorem spelling_lost_after_unknown_name:
  "create_tasks [''foo'', ''AWS''] = [AwsTask]
   \<and> map fst (provider_results
        (sync_all_providers env start_date end_date (Some [''foo'', ''AWS''])))
     = [''foo'']"
  by (simp add: sync_all_providers_def Let_def gather_def run_task_def lower_simps)

text \<open>
  Claim C10, at a request that names two unknown providers before \<open>aws\<close> twice. Two
  AWS pipelines are launched and their outcomes are stored under the two unknown names:
  the results keep no entry of \<open>aws\<close>, where the claim asks for one.
\<close>

theorem duplicate_name_keeps_no_entry:
  "create_tasks [''foo'', ''bar'', ''aws'', ''aws''] = [AwsTask, AwsTask]
   \<and> map fst (provider_results
        (sync_all_providers env start_date end_date (Some [''foo'', ''bar'', ''aws'', ''aws''])))
     = [''foo'', ''bar'']"
  by (simp add: sync_all_providers_def Let_def gather_def run_task_def lower_simps)

end
